theory Spec2Isabelle
  imports Complex_Main
begin

section \<open>Performance analytics of a backtest: a shallow embedding\<close>

text \<open>
  The embedded program is the class \<open>PerformanceAnalysis\<close> of
  \<^verbatim>\<open>Performance_Analysis.py\<close>. Conventions of the embedding:
  \<^item> Python numbers (the entries of \<open>account.total_assets\<close>, profits, rates) are
    idealised as \<open>real\<close>: rounding and overflow of binary floating point are not
    represented, so the power in \<open>get_annualized_return\<close> has no \<open>OverflowError\<close>.
  \<^item> A pandas Series is the list of its values; an entry that may be NaN has type
    \<open>real option\<close>, with \<open>None\<close> for NaN. The index (the dates) is carried by the
    account and only its length matters. The pandas operations are those of the
    releases that accept \<open>fillna(method='ffill')\<close>.
  \<^item> An exception raised by the source is a value \<open>Inl e\<close> of a result type.
  \<^item> The object \<open>self\<close> is a record that the mutating methods return updated.
  \<^item> \<open>print\<close> statements are left out.
\<close>

subsection \<open>Errors and results\<close>

datatype py_error = ValueError | ZeroDivisionError | AttributeError | TypeError | OverflowError

type_synonym 'a result = "py_error + 'a"

definition bindE :: "'a result \<Rightarrow> ('a \<Rightarrow> 'b result) \<Rightarrow> 'b result" where
  "bindE m f = (case m of Inl e \<Rightarrow> Inl e | Inr x \<Rightarrow> f x)"

text \<open>Python's true division of two numbers: a zero divisor raises.\<close>

definition py_div :: "real \<Rightarrow> real \<Rightarrow> real result" where
  "py_div a b = (if b = 0 then Inl ZeroDivisionError else Inr (a / b))"

subsection \<open>The account ledger and the analyser object\<close>

text \<open>
  A trade record is a dictionary with the key \<open>action\<close> and, optionally, the keys
  \<open>profit\<close> and \<open>return_rate\<close>; an absent key is \<open>None\<close>. The key
  \<open>action\<close> is part of the type, so the column \<open>trades['action']\<close> exists for
  every non-empty history.
\<close>

record trade =
  action :: string
  profit :: "real option"
  return_rate :: "real option"

record Account =
  dates :: "int list"
  total_assets :: "real list"
  trade_history :: "trade list"

record PerformanceAnalysis =
  account :: Account
  strategy_returns :: "real list option"
  cumulative_returns :: "real list option"
  cumulative_net_assets :: "real list option"

subsection \<open>The pandas operations used by the source\<close>

text \<open>\<open>pd.Series(values, index=index)\<close> of two lists: the lengths must agree.\<close>

definition pd_Series :: "'a list \<Rightarrow> 'i list \<Rightarrow> 'a list result" where
  "pd_Series vals idx = (if length vals \<noteq> length idx then Inl ValueError else Inr vals)"

text \<open>\<open>Series.replace(0, np.nan)\<close>: exactly the entries equal to zero become NaN.\<close>

definition replace_zero_nan :: "real option list \<Rightarrow> real option list" where
  "replace_zero_nan s = map (\<lambda>v. if v = Some 0 then None else v) s"

text \<open>
  \<open>Series.fillna(method='ffill')\<close>: a NaN takes the last value seen before it; NaN
  entries before the first value stay NaN.
\<close>

fun ffill_from :: "real option \<Rightarrow> real option list \<Rightarrow> real option list" where
  "ffill_from prev [] = []"
| "ffill_from prev (None # s) = prev # ffill_from prev s"
| "ffill_from prev (Some v # s) = Some v # ffill_from (Some v) s"

definition ffill :: "real option list \<Rightarrow> real option list" where
  "ffill s = ffill_from None s"

text \<open>\<open>Series.clip(lower=lo)\<close>: values below \<open>lo\<close> are raised to it, NaN stays NaN.\<close>

definition clip_lower :: "real \<Rightarrow> real option list \<Rightarrow> real option list" where
  "clip_lower lo s = map (map_option (\<lambda>v. max v lo)) s"

text \<open>
  \<open>Series.pct_change()\<close>: the series is forward-filled (the default
  \<open>fill_method='pad'\<close>), then every entry is divided by its predecessor and 1 is
  subtracted. The first entry has no predecessor and is NaN, and NaN operands give NaN.
  A zero predecessor (numpy then yields an infinity or NaN) is rendered as \<open>None\<close>;
  lemma \<open>calculate_returns_denominators\<close> below shows that \<open>calculate_returns\<close>
  never divides by zero.
\<close>

definition shift1 :: "real option list \<Rightarrow> real option list" where
  "shift1 s = (if s = [] then [] else None # butlast s)"

definition pct_entry :: "real option \<Rightarrow> real option \<Rightarrow> real option" where
  "pct_entry cur prev =
     (case (cur, prev) of
        (Some c, Some p) \<Rightarrow> (if p = 0 then None else Some (c / p - 1))
      | _ \<Rightarrow> None)"

definition pct_change :: "real option list \<Rightarrow> real option list" where
  "pct_change s = (let d = ffill s in map2 pct_entry d (shift1 d))"

text \<open>\<open>Series.fillna(0)\<close>.\<close>

definition fillna_zero :: "real option list \<Rightarrow> real list" where
  "fillna_zero s = map (\<lambda>v. case v of None \<Rightarrow> 0 | Some x \<Rightarrow> x) s"

text \<open>\<open>Series.clip(lower=lo, upper=hi)\<close> on a series without NaN.\<close>

definition clip :: "real \<Rightarrow> real \<Rightarrow> real list \<Rightarrow> real list" where
  "clip lo hi s = map (\<lambda>v. min (max v lo) hi) s"

text \<open>\<open>Series.cumprod()\<close>: the running product, accumulated from the left.\<close>

fun cumprod_from :: "real \<Rightarrow> real list \<Rightarrow> real list" where
  "cumprod_from acc [] = []"
| "cumprod_from acc (x # xs) = (acc * x) # cumprod_from (acc * x) xs"

definition cumprod :: "real list \<Rightarrow> real list" where
  "cumprod s = cumprod_from 1 s"

subsection \<open>Return derivation\<close>

text \<open>
  The value of \<open>total_assets_series\<close> when the percentage change is taken
  (lines 22 to 32): the raw values, and in the presence of a non-positive value the
  result of \<open>replace(0, nan)\<close>, \<open>fillna(method='ffill')\<close> and \<open>clip(lower=1e-6)\<close>.
\<close>

definition sanitized_series :: "real list \<Rightarrow> real option list" where
  "sanitized_series assets =
     (let total_assets_series = map Some assets
      in if list_ex (\<lambda>asset. asset \<le> 0) assets
         then clip_lower (1 / 1000000) (ffill (replace_zero_nan total_assets_series))
         else total_assets_series)"

definition calculate_returns ::
  "PerformanceAnalysis \<Rightarrow> (real list \<times> PerformanceAnalysis) result" where
  "calculate_returns self =
     (if length (total_assets (account self)) = 0 then Inl ValueError
      else bindE (pd_Series (total_assets (account self)) (dates (account self)))
        (\<lambda>vals.
           let total_assets_series = sanitized_series vals;
               rets = fillna_zero (pct_change total_assets_series);
               rets = clip (- (11 / 100)) (11 / 100) rets
           in Inr (rets, self\<lparr>strategy_returns := Some rets\<rparr>)))"

subsection \<open>Scalar metrics on the raw ledger\<close>

definition get_total_return :: "PerformanceAnalysis \<Rightarrow> real result" where
  "get_total_return self =
     (if length (total_assets (account self)) < 2 then Inr 0
      else
        let initial_value = total_assets (account self) ! 0;
            final_value = last (total_assets (account self))
        in bindE (py_div final_value initial_value) (\<lambda>q. Inr ((q - 1) * 100)))"

subsection \<open>Cumulative value derivation\<close>

text \<open>
  \<open>if self.strategy_returns is None: self.calculate_returns()\<close>, followed by a read
  of \<open>self.strategy_returns\<close>.
\<close>

definition ensure_returns ::
  "PerformanceAnalysis \<Rightarrow> (real list \<times> PerformanceAnalysis) result" where
  "ensure_returns self =
     (case strategy_returns self of
        None \<Rightarrow> calculate_returns self
      | Some rets \<Rightarrow> Inr (rets, self))"

text \<open>
  The class body defines \<open>calculate_cumulative_returns\<close> twice. Both bodies are
  embedded over the compounding operation \<open>compound\<close>, which stands for
  \<open>(1 + self.strategy_returns).cumprod()\<close> applied to the list of the values
  \<open>1 + r\<close>, so that a numeric failure of the library can be expressed.

  The first definition (lines 48 to 70) wraps the computation in \<open>try\<close> and
  substitutes default series when it raises.
\<close>

definition calculate_cumulative_returns_first_with ::
  "(real list \<Rightarrow> real list result) \<Rightarrow> PerformanceAnalysis
     \<Rightarrow> (real list \<times> PerformanceAnalysis) result" where
  "calculate_cumulative_returns_first_with compound self =
     bindE (ensure_returns self)
       (\<lambda>(rets, self).
          case compound (map (\<lambda>r. 1 + r) rets) of
            Inr net \<Rightarrow>
              let cum = map (\<lambda>v. v - 1) net
              in Inr (cum, self\<lparr>cumulative_net_assets := Some net,
                                 cumulative_returns := Some cum\<rparr>)
          | Inl e \<Rightarrow>
              let net = replicate (length rets) 1;
                  cum = replicate (length rets) 0
              in Inr (cum, self\<lparr>cumulative_net_assets := Some net,
                                 cumulative_returns := Some cum\<rparr>))"

text \<open>
  The second definition (lines 72 to 81) has no \<open>try\<close>. It is bound to the name
  last, so it is the method that every call reaches.
\<close>

definition calculate_cumulative_returns_with ::
  "(real list \<Rightarrow> real list result) \<Rightarrow> PerformanceAnalysis
     \<Rightarrow> (real list \<times> PerformanceAnalysis) result" where
  "calculate_cumulative_returns_with compound self =
     bindE (ensure_returns self)
       (\<lambda>(rets, self).
          bindE (compound (map (\<lambda>r. 1 + r) rets))
            (\<lambda>net.
               let cum = map (\<lambda>v. v - 1) net
               in Inr (cum, self\<lparr>cumulative_net_assets := Some net,
                                  cumulative_returns := Some cum\<rparr>)))"

text \<open>Over the reals the running product always exists.\<close>

definition calculate_cumulative_returns ::
  "PerformanceAnalysis \<Rightarrow> (real list \<times> PerformanceAnalysis) result" where
  "calculate_cumulative_returns =
     calculate_cumulative_returns_with (\<lambda>s. Inr (cumprod s))"

text \<open>
  The constructor \<open>__init__\<close>: \<open>fresh acct\<close> is the object after the four
  assignments, before the two method calls.
\<close>

definition fresh :: "Account \<Rightarrow> PerformanceAnalysis" where
  "fresh acct = \<lparr>account = acct, strategy_returns = None,
                  cumulative_returns = None, cumulative_net_assets = None\<rparr>"

definition PerformanceAnalysis_init :: "Account \<Rightarrow> PerformanceAnalysis result" where
  "PerformanceAnalysis_init acct =
     bindE (calculate_returns (fresh acct))
       (\<lambda>(rets, self). bindE (calculate_cumulative_returns self)
          (\<lambda>(cum, self). Inr self))"

subsection \<open>Annualised return, volatility and ratios\<close>

text \<open>
  A Python \<open>float\<close> raised to a \<open>float\<close> power is a \<open>float\<close> or, for a negative
  base \<open>b\<close> with a non-integral exponent \<open>e\<close>, the \<open>complex\<close> number of modulus
  \<open>(- b) ** e\<close> and argument \<open>pi * e\<close>; the values that flow out of
  \<open>get_annualized_return\<close> are therefore of two kinds.
\<close>

datatype pynum = PyFloat real | PyComplex complex

fun pynum_add :: "pynum \<Rightarrow> real \<Rightarrow> pynum" where
  "pynum_add (PyFloat x) r = PyFloat (x + r)"
| "pynum_add (PyComplex z) r = PyComplex (z + complex_of_real r)"

fun pynum_mul :: "pynum \<Rightarrow> real \<Rightarrow> pynum" where
  "pynum_mul (PyFloat x) r = PyFloat (x * r)"
| "pynum_mul (PyComplex z) r = PyComplex (z * complex_of_real r)"

text \<open>Division by a divisor that the caller has checked to be non-zero.\<close>

fun pynum_div :: "pynum \<Rightarrow> real \<Rightarrow> pynum" where
  "pynum_div (PyFloat x) r = PyFloat (x / r)"
| "pynum_div (PyComplex z) r = PyComplex (z / complex_of_real r)"

fun pynum_abs :: "pynum \<Rightarrow> real" where
  "pynum_abs (PyFloat x) = \<bar>x\<bar>"
| "pynum_abs (PyComplex z) = cmod z"

definition py_pow :: "real \<Rightarrow> real \<Rightarrow> pynum result" where
  "py_pow b e =
     (if 0 < b then Inr (PyFloat (b powr e))
      else if b = 0 then
        (if e < 0 then Inl ZeroDivisionError
         else if e = 0 then Inr (PyFloat 1)
         else Inr (PyFloat 0))
      else if e = of_int \<lfloor>e\<rfloor> then Inr (PyFloat (b powi \<lfloor>e\<rfloor>))
      else Inr (PyComplex (complex_of_real ((- b) powr e) * cis (pi * e))))"

definition get_annualized_return :: "PerformanceAnalysis \<Rightarrow> pynum result" where
  "get_annualized_return self =
     (if length (dates (account self)) < 2 then Inr (PyFloat 0)
      else bindE (get_total_return self)
        (\<lambda>tr.
           let total_return = tr / 100;
               trading_days = length (dates (account self))
           in if trading_days \<le> 1 then Inr (PyFloat 0)
              else bindE (py_pow (1 + total_return) (252 / real trading_days))
                (\<lambda>p. let annualized_return = pynum_add p (- 1)
                     in Inr (pynum_mul annualized_return 100))))"

text \<open>
  \<open>Series.std()\<close>: the sample standard deviation (divisor \<open>n - 1\<close>). Both callers
  return before this point when the series has fewer than two entries, where pandas
  would give NaN.
\<close>

definition mean :: "real list \<Rightarrow> real" where
  "mean s = sum_list s / real (length s)"

definition pd_std :: "real list \<Rightarrow> real" where
  "pd_std s = sqrt (sum_list (map (\<lambda>x. (x - mean s)\<^sup>2) s) / (real (length s) - 1))"

definition get_sharpe_ratio ::
  "real \<Rightarrow> PerformanceAnalysis \<Rightarrow> (pynum \<times> PerformanceAnalysis) result" where
  "get_sharpe_ratio risk_free_rate self =
     bindE (ensure_returns self)
       (\<lambda>(rets, self).
          if length rets < 2 then Inr (PyFloat 0, self)
          else bindE (get_annualized_return self)
            (\<lambda>ar.
               let annual_return = pynum_div ar 100;
                   annual_volatility = pd_std rets * sqrt 252
               in if annual_volatility = 0 then Inr (PyFloat 0, self)
                  else Inr (pynum_div (pynum_add annual_return (- risk_free_rate))
                              annual_volatility, self)))"

definition get_volatility ::
  "PerformanceAnalysis \<Rightarrow> (real \<times> PerformanceAnalysis) result" where
  "get_volatility self =
     bindE (ensure_returns self)
       (\<lambda>(rets, self).
          if length rets < 2 then Inr (0, self)
          else Inr (pd_std rets * sqrt 252 * 100, self))"

text \<open>
  \<open>get_calmar_ratio\<close> evaluates \<open>self.get_max_drawdown()\<close>. The embedding takes the
  object bound to that attribute as the argument \<open>max_drawdown_method\<close>.
\<close>

definition get_calmar_ratio_with ::
  "(PerformanceAnalysis \<Rightarrow> real result) \<Rightarrow> PerformanceAnalysis \<Rightarrow> real result" where
  "get_calmar_ratio_with max_drawdown_method self =
     bindE (get_annualized_return self)
       (\<lambda>ar.
          let annual_return = pynum_abs ar
          in bindE (max_drawdown_method self)
               (\<lambda>md.
                  let max_dd = \<bar>md\<bar>
                  in if max_dd = 0 then Inr 0 else Inr (annual_return / max_dd)))"

text \<open>
  The class \<open>PerformanceAnalysis\<close> defines no method \<open>get_max_drawdown\<close> and no
  statement of the sources assigns that attribute, so the lookup raises
  \<open>AttributeError\<close>.
\<close>

definition get_max_drawdown :: "PerformanceAnalysis \<Rightarrow> real result" where
  "get_max_drawdown self = Inl AttributeError"

definition get_calmar_ratio :: "PerformanceAnalysis \<Rightarrow> real result" where
  "get_calmar_ratio = get_calmar_ratio_with get_max_drawdown"

subsection \<open>Trade statistics\<close>

text \<open>
  \<open>pd.DataFrame(self.account.trade_history)\<close> has one row per record and one column
  per key that occurs in some record; a record without the key holds NaN there, and a
  comparison with NaN is false.
\<close>

definition get_trade_count :: "PerformanceAnalysis \<Rightarrow> nat" where
  "get_trade_count self = length (trade_history (account self))"

definition get_buy_sell_count :: "PerformanceAnalysis \<Rightarrow> nat \<times> nat" where
  "get_buy_sell_count self =
     (let trades = trade_history (account self)
      in if trades = [] then (0, 0)
         else (length (filter (\<lambda>t. action t = ''buy'') trades),
               length (filter (\<lambda>t. action t = ''sell'') trades)))"

definition get_win_rate :: "PerformanceAnalysis \<Rightarrow> real" where
  "get_win_rate self =
     (let trades = trade_history (account self)
      in if trades = [] then 0
         else
           let sell_trades = filter (\<lambda>t. action t = ''sell'') trades
           in if sell_trades = [] then 0
              else if list_ex (\<lambda>t. profit t \<noteq> None) trades then
                let winning_trades =
                      length (filter (\<lambda>t. case profit t of None \<Rightarrow> False | Some p \<Rightarrow> 0 < p)
                                sell_trades)
                in real winning_trades / real (length sell_trades) * 100
              else 0)"

definition get_avg_trade_return :: "PerformanceAnalysis \<Rightarrow> real" where
  "get_avg_trade_return self =
     (let trades = trade_history (account self)
      in if trades = [] then 0
         else if list_ex (\<lambda>t. return_rate t \<noteq> None) trades
              then mean (List.map_filter return_rate trades) * 100
              else 0)"

subsection \<open>Validation and summary assembly\<close>

datatype data_issue = NoAssetData | NonPositiveAssets | LengthMismatch

definition validate_data :: "PerformanceAnalysis \<Rightarrow> data_issue list" where
  "validate_data self =
     (if length (total_assets (account self)) = 0 then [NoAssetData] else [])
     @ (if list_ex (\<lambda>asset. asset \<le> 0) (total_assets (account self))
        then [NonPositiveAssets] else [])
     @ (if length (dates (account self)) \<noteq> length (total_assets (account self))
        then [LengthMismatch] else [])"

text \<open>
  Python's \<open>round(x, n)\<close>: to \<open>n\<close> decimal places, a tie going to the even
  neighbour; it raises \<open>TypeError\<close> for a \<open>complex\<close> argument.
\<close>

definition round_half_even :: "real \<Rightarrow> int" where
  "round_half_even y =
     (let f = \<lfloor>y\<rfloor>; d = y - of_int f
      in if d < 1 / 2 then f
         else if 1 / 2 < d then f + 1
         else if even f then f else f + 1)"

definition py_round_float :: "real \<Rightarrow> nat \<Rightarrow> real" where
  "py_round_float x n = of_int (round_half_even (x * 10 ^ n)) / 10 ^ n"

fun py_round :: "pynum \<Rightarrow> nat \<Rightarrow> real result" where
  "py_round (PyFloat x) n = Inr (py_round_float x n)"
| "py_round (PyComplex z) n = Inl TypeError"

datatype summary_value = Metric real | Count nat

text \<open>
  The keys of the summary are natural-language labels in the source; they are
  rendered here by ASCII names in the same order. The \<open>print\<close> statements have no
  effect on the result and are left out; \<open>validate_data\<close> is evaluated for them only.
\<close>

definition get_performance_summary_with ::
  "(PerformanceAnalysis \<Rightarrow> real result) \<Rightarrow> PerformanceAnalysis
     \<Rightarrow> ((string \<times> summary_value) list \<times> PerformanceAnalysis) result" where
  "get_performance_summary_with max_drawdown_method self =
     (let data_issues = validate_data self
      in bindE (get_total_return self) (\<lambda>total_return.
         bindE (get_annualized_return self) (\<lambda>annual_return.
         bindE (get_sharpe_ratio (2 / 100) self) (\<lambda>(sharpe_ratio, self).
         bindE (get_volatility self) (\<lambda>(volatility, self).
         bindE (get_calmar_ratio_with max_drawdown_method self) (\<lambda>calmar_ratio.
           let trade_count = get_trade_count self;
               (buy_count, sell_count) = get_buy_sell_count self;
               win_rate = get_win_rate self;
               avg_trade_return = get_avg_trade_return self
           in bindE (py_round annual_return 2) (\<lambda>annual_rounded.
              bindE (py_round sharpe_ratio 3) (\<lambda>sharpe_rounded.
                Inr ([(''total_return_pct'', Metric (py_round_float total_return 2)),
                      (''annualized_return_pct'', Metric annual_rounded),
                      (''sharpe_ratio'', Metric sharpe_rounded),
                      (''annualized_volatility_pct'', Metric (py_round_float volatility 2)),
                      (''calmar_ratio'', Metric (py_round_float calmar_ratio 3)),
                      (''trade_count'', Count trade_count),
                      (''buy_count'', Count buy_count),
                      (''sell_count'', Count sell_count),
                      (''win_rate_pct'', Metric (py_round_float win_rate 2)),
                      (''avg_trade_return_pct'', Metric (py_round_float avg_trade_return 2))],
                     self)))))))))"

definition get_performance_summary ::
  "PerformanceAnalysis \<Rightarrow> ((string \<times> summary_value) list \<times> PerformanceAnalysis) result" where
  "get_performance_summary = get_performance_summary_with get_max_drawdown"

subsection \<open>The specification's wording of two operations\<close>

text \<open>
  Return derivation as the specification words it: each non-positive value is replaced
  by the most recent preceding positive value, and by \<open>1e-6\<close> when there is none.
\<close>

fun spec_fill_from :: "real option \<Rightarrow> real list \<Rightarrow> real list" where
  "spec_fill_from prev [] = []"
| "spec_fill_from prev (v # vs) =
     (if 0 < v then v # spec_fill_from (Some v) vs
      else (case prev of None \<Rightarrow> 1 / 1000000 | Some p \<Rightarrow> p) # spec_fill_from prev vs)"

definition spec_forward_fill :: "real list \<Rightarrow> real list" where
  "spec_forward_fill vs = spec_fill_from None vs"

text \<open>
  The win rate as the specification words it: among the sell trades that have a
  \<open>profit\<close> field, the share (in percent) of those with a positive profit; \<open>0\<close> when
  there is no such trade.
\<close>

definition spec_win_rate :: "trade list \<Rightarrow> real" where
  "spec_win_rate trades =
     (let profits = List.map_filter profit (filter (\<lambda>t. action t = ''sell'') trades)
      in if profits = [] then 0
         else real (length (filter (\<lambda>p. 0 < p) profits)) / real (length profits) * 100)"

section \<open>Properties\<close>

subsection \<open>Results\<close>

lemma bindE_Inr [simp]: "bindE (Inr x) f = f x"
  by (simp add: bindE_def)

lemma bindE_Inl [simp]: "bindE (Inl e) f = Inl e"
  by (simp add: bindE_def)

subsection \<open>Forward fill\<close>

lemma length_ffill_from [simp]: "length (ffill_from p s) = length s"
  by (induction p s rule: ffill_from.induct) auto

lemma ffill_length [simp]: "length (ffill s) = length s"
  by (simp add: ffill_def)

lemma ffill_from_set: "Some v \<in> set (ffill_from p s) \<Longrightarrow> Some v = p \<or> Some v \<in> set s"
  by (induction p s rule: ffill_from.induct) auto

text \<open>An entry that holds a value keeps it.\<close>

lemma ffill_from_nth_Some:
  "i < length s \<Longrightarrow> s ! i = Some v \<Longrightarrow> ffill_from p s ! i = Some v"
proof (induction p s arbitrary: i rule: ffill_from.induct)
  case (1 prev)
  then show ?case by simp
next
  case (2 prev s)
  then show ?case by (cases i) auto
next
  case (3 prev w s)
  then show ?case by (cases i) auto
qed

text \<open>A run of NaN from the start carries the value that was pending.\<close>

lemma ffill_from_nth_None_run:
  "i < length s \<Longrightarrow> \<forall>k\<le>i. s ! k = None \<Longrightarrow> ffill_from p s ! i = p"
proof (induction p s arbitrary: i rule: ffill_from.induct)
  case (1 prev)
  then show ?case by simp
next
  case (2 prev s)
  show ?case
  proof (cases i)
    case 0
    then show ?thesis by simp
  next
    case (Suc n)
    have "\<forall>k\<le>n. s ! k = None"
      using "2.prems"(2) Suc by (metis Suc_le_mono nth_Cons_Suc)
    with "2.IH"[of n] "2.prems"(1) Suc show ?thesis by simp
  qed
next
  case (3 prev w s)
  then show ?case by (metis le0 nth_Cons_0 option.distinct(1))
qed

text \<open>A NaN takes the nearest value to its left.\<close>

lemma ffill_from_nth_carry:
  "i < length s \<Longrightarrow> j < i \<Longrightarrow> s ! j = Some v \<Longrightarrow> \<forall>k. j < k \<and> k \<le> i \<longrightarrow> s ! k = None
     \<Longrightarrow> ffill_from p s ! i = Some v"
proof (induction p s arbitrary: i j rule: ffill_from.induct)
  case (1 prev)
  then show ?case by simp
next
  case (2 prev s)
  from "2.prems" obtain i' where i: "i = Suc i'" by (cases i) auto
  from "2.prems" obtain j' where j: "j = Suc j'" by (cases j) auto
  have "\<forall>k. j' < k \<and> k \<le> i' \<longrightarrow> s ! k = None"
    using "2.prems"(4) i j by (metis Suc_le_mono Suc_less_eq nth_Cons_Suc)
  with "2.IH"[of i' j'] "2.prems" i j show ?case by simp
next
  case (3 prev w s)
  from "3.prems" obtain i' where i: "i = Suc i'" by (cases i) auto
  show ?case
  proof (cases j)
    case 0
    with "3.prems" have v: "w = v" by simp
    have "\<forall>k\<le>i'. s ! k = None"
      using "3.prems"(4) 0 i by (metis Suc_le_mono nth_Cons_Suc zero_less_Suc)
    with ffill_from_nth_None_run[of i' s "Some w"] "3.prems"(1) i v show ?thesis by simp
  next
    case (Suc j')
    have "\<forall>k. j' < k \<and> k \<le> i' \<longrightarrow> s ! k = None"
      using "3.prems"(4) i Suc by (metis Suc_le_mono Suc_less_eq nth_Cons_Suc)
    with "3.IH"[of i' j'] "3.prems" i Suc show ?thesis by simp
  qed
qed

subsection \<open>The series that enters the percentage change\<close>

lemma replace_zero_nan_nth:
  "i < length assets \<Longrightarrow>
     replace_zero_nan (map Some assets) ! i = (if assets ! i = 0 then None else Some (assets ! i))"
  by (simp add: replace_zero_nan_def)

lemma sanitized_series_length [simp]: "length (sanitized_series assets) = length assets"
  by (simp add: sanitized_series_def clip_lower_def ffill_def replace_zero_nan_def Let_def)

lemma sanitized_series_positive:
  assumes "Some v \<in> set (sanitized_series assets)"
  shows "0 < v"
proof (cases "list_ex (\<lambda>asset. asset \<le> 0) assets")
  case True
  with assms have "Some v \<in> set (clip_lower (1 / 1000000) (ffill (replace_zero_nan (map Some assets))))"
    by (simp add: sanitized_series_def Let_def)
  then obtain x where "Some v = map_option (\<lambda>v. max v (1 / 1000000)) x"
    by (auto simp: clip_lower_def)
  then obtain w where "v = max w (1 / 1000000)"
    by (cases x) auto
  then show ?thesis by simp
next
  case False
  then have "sanitized_series assets = map Some assets"
    by (simp add: sanitized_series_def Let_def)
  with assms have "v \<in> set assets" by auto
  with False show ?thesis
    by (auto simp: list_ex_iff not_le)
qed

text \<open>
  A zero with only zeros to its left is turned into NaN and stays NaN: neither the
  forward fill nor the lower clip changes it.
\<close>

lemma sanitized_series_leading_zero:
  assumes "i < length assets" and "\<forall>k\<le>i. assets ! k = 0"
  shows "sanitized_series assets ! i = None"
proof -
  let ?r = "replace_zero_nan (map Some assets)"
  have "assets ! i \<in> set assets"
    using assms(1) by (rule nth_mem)
  moreover have "assets ! i \<le> 0" using assms(2) by simp
  ultimately have ex: "list_ex (\<lambda>asset. asset \<le> 0) assets"
    unfolding list_ex_iff by blast
  have len: "length ?r = length assets"
    by (simp add: replace_zero_nan_def)
  have "\<forall>k\<le>i. ?r ! k = None"
    using assms by (simp add: replace_zero_nan_nth)
  then have "ffill_from None ?r ! i = None"
    using ffill_from_nth_None_run[of i ?r None] assms(1) len by simp
  then show ?thesis
    using ex assms(1) len
    by (simp add: sanitized_series_def clip_lower_def ffill_def Let_def)
qed

lemma validate_data_non_positive:
  assumes "list_ex (\<lambda>asset. asset \<le> 0) (total_assets (account self))"
  shows "NonPositiveAssets \<in> set (validate_data self)"
  using assms by (simp add: validate_data_def)

text \<open>Every divisor that \<open>pct_change\<close> meets in \<open>calculate_returns\<close> is positive.\<close>

lemma calculate_returns_denominators:
  assumes "Some p \<in> set (ffill (sanitized_series assets))"
  shows "0 < p"
proof -
  from assms have "Some p \<in> set (sanitized_series assets)"
    using ffill_from_set[of p None "sanitized_series assets"] by (simp add: ffill_def)
  then show ?thesis by (rule sanitized_series_positive)
qed

lemma shift1_length [simp]: "length (shift1 s) = length s"
  by (simp add: shift1_def)

lemma pct_change_length [simp]: "length (pct_change s) = length s"
  by (simp add: pct_change_def Let_def)

lemma pct_entry_None [simp]: "pct_entry c None = None"
  by (simp add: pct_entry_def split: option.splits)

lemma pct_change_first:
  assumes "s \<noteq> []"
  shows "pct_change s ! 0 = None"
proof -
  have "ffill s \<noteq> []"
    using assms by (metis ffill_length length_0_conv)
  then obtain x d where "ffill s = x # d"
    by (cases "ffill s") auto
  then show ?thesis
    by (simp add: pct_change_def Let_def shift1_def)
qed

lemma clip_nth_bounds:
  "lo \<le> hi \<Longrightarrow> i < length s \<Longrightarrow> lo \<le> clip lo hi s ! i \<and> clip lo hi s ! i \<le> hi"
  by (simp add: clip_def)

subsection \<open>When \<open>calculate_returns\<close> returns\<close>

lemma calculate_returns_Inr:
  assumes "calculate_returns self = Inr (rets, self')"
  shows "total_assets (account self) \<noteq> []"
    and "length (dates (account self)) = length (total_assets (account self))"
    and "rets = clip (- (11 / 100)) (11 / 100)
                  (fillna_zero (pct_change (sanitized_series (total_assets (account self)))))"
    and "self' = self\<lparr>strategy_returns := Some rets\<rparr>"
  using assms
  by (auto simp: calculate_returns_def pd_Series_def Let_def split: if_splits)

lemma calculate_returns_total:
  assumes "total_assets (account self) \<noteq> []"
    and "length (dates (account self)) = length (total_assets (account self))"
  shows "\<exists>rets. calculate_returns self = Inr (rets, self\<lparr>strategy_returns := Some rets\<rparr>)"
  using assms by (simp add: calculate_returns_def pd_Series_def Let_def)

lemma calculate_returns_raises_iff:
  "(\<exists>e. calculate_returns self = Inl e)
     \<longleftrightarrow> total_assets (account self) = []
         \<or> length (dates (account self)) \<noteq> length (total_assets (account self))"
  by (auto simp: calculate_returns_def pd_Series_def Let_def)

lemmas returns_eval = calculate_returns_def fresh_def pd_Series_def sanitized_series_def
  pct_change_def ffill_def shift1_def pct_entry_def fillna_zero_def clip_def
  clip_lower_def replace_zero_nan_def Let_def

subsection \<open>The running product\<close>

lemma cumprod_from_length [simp]: "length (cumprod_from a s) = length s"
  by (induction s arbitrary: a) auto

lemma cumprod_length [simp]: "length (cumprod s) = length s"
  by (simp add: cumprod_def)

lemma cumprod_from_nth:
  "i < length s \<Longrightarrow> cumprod_from a s ! i = a * (\<Prod>k\<le>i. s ! k)"
proof (induction s arbitrary: a i)
  case Nil
  then show ?case by simp
next
  case (Cons x s)
  show ?case
  proof (cases i)
    case 0
    then show ?thesis by simp
  next
    case (Suc n)
    with Cons.prems have "n < length s" by simp
    from Cons.IH[OF this, of "a * x"] Suc show ?thesis
      by (simp add: prod.atMost_Suc_shift del: prod.atMost_Suc)
  qed
qed

lemma cumprod_nth:
  assumes "i < length rets"
  shows "cumprod (map (\<lambda>r. 1 + r) rets) ! i = (\<Prod>k\<le>i. 1 + rets ! k)"
proof -
  have "cumprod (map (\<lambda>r. 1 + r) rets) ! i = (\<Prod>k\<le>i. map (\<lambda>r. 1 + r) rets ! k)"
    using assms by (simp add: cumprod_def cumprod_from_nth)
  also have "\<dots> = (\<Prod>k\<le>i. 1 + rets ! k)"
    using assms by (intro prod.cong) auto
  finally show ?thesis .
qed

subsection \<open>The constructor\<close>

lemma calculate_cumulative_returns_Some:
  assumes "strategy_returns self = Some rets"
  shows "calculate_cumulative_returns self
     = Inr (map (\<lambda>v. v - 1) (cumprod (map (\<lambda>r. 1 + r) rets)),
            self\<lparr>cumulative_net_assets := Some (cumprod (map (\<lambda>r. 1 + r) rets)),
                 cumulative_returns := Some (map (\<lambda>v. v - 1) (cumprod (map (\<lambda>r. 1 + r) rets)))\<rparr>)"
  using assms
  by (simp add: calculate_cumulative_returns_def calculate_cumulative_returns_with_def
      ensure_returns_def Let_def)

lemma PerformanceAnalysis_init_Inr:
  assumes "PerformanceAnalysis_init acct = Inr self"
  obtains rets where
    "calculate_returns (fresh acct) = Inr (rets, (fresh acct)\<lparr>strategy_returns := Some rets\<rparr>)"
    "self = (fresh acct)\<lparr>strategy_returns := Some rets,
               cumulative_net_assets := Some (cumprod (map (\<lambda>r. 1 + r) rets)),
               cumulative_returns := Some (map (\<lambda>v. v - 1) (cumprod (map (\<lambda>r. 1 + r) rets)))\<rparr>"
proof -
  from assms obtain rets s1 where c: "calculate_returns (fresh acct) = Inr (rets, s1)"
    by (cases "calculate_returns (fresh acct)") (auto simp: PerformanceAnalysis_init_def)
  note r = calculate_returns_Inr[OF c]
  have s1: "strategy_returns s1 = Some rets"
    by (simp add: r(4))
  from assms c calculate_cumulative_returns_Some[OF s1]
  have "self = s1\<lparr>cumulative_net_assets := Some (cumprod (map (\<lambda>r. 1 + r) rets)),
                 cumulative_returns := Some (map (\<lambda>v. v - 1) (cumprod (map (\<lambda>r. 1 + r) rets)))\<rparr>"
    by (simp add: PerformanceAnalysis_init_def)
  with c r(4) that show ?thesis by simp
qed

text \<open>The constructor succeeds on every non-empty ledger whose two lists agree in length.\<close>

lemma PerformanceAnalysis_init_total:
  assumes "total_assets acct \<noteq> []" and "length (dates acct) = length (total_assets acct)"
  shows "\<exists>self. PerformanceAnalysis_init acct = Inr self"
proof -
  from assms obtain rets where
    "calculate_returns (fresh acct) = Inr (rets, (fresh acct)\<lparr>strategy_returns := Some rets\<rparr>)"
    using calculate_returns_total[of "fresh acct"] by (auto simp: fresh_def)
  then show ?thesis
    using calculate_cumulative_returns_Some[of "(fresh acct)\<lparr>strategy_returns := Some rets\<rparr>" rets]
    by (simp add: PerformanceAnalysis_init_def)
qed

lemmas cumulative_eval = PerformanceAnalysis_init_def calculate_cumulative_returns_def
  calculate_cumulative_returns_with_def ensure_returns_def cumprod_def

subsection \<open>Metrics\<close>

text \<open>
  With a positive first and last asset value the annualised return is the real power.
\<close>

lemma get_annualized_return_positive:
  assumes "2 \<le> length (dates (account self))" and "2 \<le> length (total_assets (account self))"
    and "0 < total_assets (account self) ! 0" and "0 < last (total_assets (account self))"
  shows "get_annualized_return self
     = Inr (PyFloat (((last (total_assets (account self)) / total_assets (account self) ! 0)
                        powr (252 / real (length (dates (account self)))) - 1) * 100))"
proof -
  define q where "q = last (total_assets (account self)) / total_assets (account self) ! 0"
  define E where "E = 252 / real (length (dates (account self)))"
  have t: "get_total_return self = Inr ((q - 1) * 100)"
    using assms by (simp add: get_total_return_def py_div_def Let_def q_def)
  have q: "0 < q" using assms by (simp add: q_def)
  have b: "1 + (q - 1) * 100 / 100 = q" by (simp add: field_simps)
  have p: "py_pow q E = Inr (PyFloat (q powr E))"
    using q by (simp add: py_pow_def)
  have "get_annualized_return self
          = bindE (py_pow (1 + (q - 1) * 100 / 100) E)
              (\<lambda>p. Inr (pynum_mul (pynum_add p (- 1)) 100))"
    using assms(1) t by (simp add: get_annualized_return_def Let_def E_def del: add_diff_eq)
  also have "\<dots> = Inr (PyFloat ((q powr E - 1) * 100))"
    by (simp only: b p bindE_Inr pynum_add.simps pynum_mul.simps) simp
  finally show ?thesis by (simp add: q_def E_def)
qed

text \<open>
  Whatever is bound to \<open>get_max_drawdown\<close>: when it and the annualised return yield
  values, the Calmar ratio is the quotient of their absolute values, and \<open>0\<close> for a
  zero drawdown.
\<close>

lemma get_calmar_ratio_with_formula:
  assumes "get_annualized_return self = Inr ar" and "max_drawdown_method self = Inr md"
  shows "get_calmar_ratio_with max_drawdown_method self
           = Inr (if md = 0 then 0 else pynum_abs ar / \<bar>md\<bar>)"
  using assms by (simp add: get_calmar_ratio_with_def Let_def)

lemma get_calmar_ratio_with_missing:
  "get_calmar_ratio_with get_max_drawdown self
     = (case get_annualized_return self of Inl e \<Rightarrow> Inl e | Inr ar \<Rightarrow> Inl AttributeError)"
  by (simp add: get_calmar_ratio_with_def get_max_drawdown_def bindE_def Let_def split: sum.splits)

lemma get_sharpe_ratio_returns:
  assumes "strategy_returns self = Some rets" and "get_annualized_return self = Inr ar"
  shows "\<exists>v. get_sharpe_ratio rf self = Inr (v, self)"
  using assms by (simp add: get_sharpe_ratio_def ensure_returns_def Let_def)

lemma get_volatility_returns:
  assumes "strategy_returns self = Some rets"
  shows "\<exists>v. get_volatility self = Inr (v, self)"
  using assms by (simp add: get_volatility_def ensure_returns_def)

lemma get_performance_summary_with_total_return_raises:
  assumes "get_total_return self = Inl e"
  shows "get_performance_summary_with m self = Inl e"
  using assms by (simp add: get_performance_summary_with_def Let_def)

text \<open>
  The summary reaches \<open>get_calmar_ratio\<close> unless an earlier metric raises, so with the
  class as it stands no call of \<open>get_performance_summary\<close> returns.
\<close>

lemma get_performance_summary_missing:
  "\<exists>e. get_performance_summary self = Inl e"
proof -
  have c: "\<exists>e. get_calmar_ratio_with get_max_drawdown s = Inl e" for s
    by (simp add: get_calmar_ratio_with_missing split: sum.splits)
  show ?thesis
  proof (cases "get_total_return self")
    case (Inl e)
    then show ?thesis
      by (simp add: get_performance_summary_def get_performance_summary_with_def)
  next
    case tr: (Inr t)
    show ?thesis
    proof (cases "get_annualized_return self")
      case (Inl e)
      with tr show ?thesis
        by (simp add: get_performance_summary_def get_performance_summary_with_def)
    next
      case ar: (Inr a)
      show ?thesis
      proof (cases "get_sharpe_ratio (2 / 100) self")
        case (Inl e)
        with tr ar show ?thesis
          by (simp add: get_performance_summary_def get_performance_summary_with_def)
      next
        case sh: (Inr p)
        obtain v s1 where p: "p = (v, s1)" by (cases p)
        show ?thesis
        proof (cases "get_volatility s1")
          case (Inl e)
          with tr ar sh p show ?thesis
            by (simp add: get_performance_summary_def get_performance_summary_with_def)
        next
          case vo: (Inr p2)
          obtain w s2 where p2: "p2 = (w, s2)" by (cases p2)
          from c[of s2] obtain e where "get_calmar_ratio_with get_max_drawdown s2 = Inl e" ..
          with tr ar sh p vo p2 show ?thesis
            by (simp add: get_performance_summary_def get_performance_summary_with_def)
        qed
      qed
    qed
  qed
qed

subsection \<open>The two definitions of \<open>calculate_cumulative_returns\<close>\<close>

text \<open>
  The two bodies differ only where the compounding operation fails: the second, which
  is the bound method, passes the error on, and the first, which is shadowed,
  substitutes the series of ones and zeros.
\<close>

lemma calculate_cumulative_returns_with_propagates:
  assumes "strategy_returns self = Some rets" and "compound (map (\<lambda>r. 1 + r) rets) = Inl e"
  shows "calculate_cumulative_returns_with compound self = Inl e"
  using assms by (simp add: calculate_cumulative_returns_with_def ensure_returns_def)

lemma calculate_cumulative_returns_first_with_falls_back:
  assumes "strategy_returns self = Some rets" and "compound (map (\<lambda>r. 1 + r) rets) = Inl e"
  shows "calculate_cumulative_returns_first_with compound self
     = Inr (replicate (length rets) 0,
            self\<lparr>cumulative_net_assets := Some (replicate (length rets) 1),
                 cumulative_returns := Some (replicate (length rets) 0)\<rparr>)"
  using assms by (simp add: calculate_cumulative_returns_first_with_def ensure_returns_def Let_def)

text \<open>
  C7 speaks of a numeric error raised while compounding. Over the reals the running
  product is total, so no ledger reaches that case: with the running product for the
  compounding operation the two bodies are the same function, and the only error of
  the bound method is the \<open>ValueError\<close> of a lazy call of \<open>calculate_returns\<close>.
\<close>

lemma calculate_returns_error:
  assumes "calculate_returns self = Inl e"
  shows "e = ValueError"
  using assms
  by (auto simp: calculate_returns_def pd_Series_def Let_def split: if_splits)

lemma calculate_cumulative_returns_error:
  assumes "calculate_cumulative_returns self = Inl e"
  shows "e = ValueError \<and> strategy_returns self = None"
proof (cases "strategy_returns self")
  case None
  with assms have "calculate_returns self = Inl e"
    by (cases "calculate_returns self")
      (auto simp: calculate_cumulative_returns_def calculate_cumulative_returns_with_def
        ensure_returns_def Let_def)
  then have "e = ValueError" by (rule calculate_returns_error)
  with None show ?thesis by simp
next
  case (Some rets)
  with assms show ?thesis
    by (simp add: calculate_cumulative_returns_Some)
qed

lemma calculate_cumulative_returns_first_agrees:
  "calculate_cumulative_returns_first_with (\<lambda>s. Inr (cumprod s)) self
     = calculate_cumulative_returns self"
  by (cases "ensure_returns self")
    (auto simp: calculate_cumulative_returns_first_with_def calculate_cumulative_returns_def
      calculate_cumulative_returns_with_def)

lemma PerformanceAnalysis_init_error:
  assumes "PerformanceAnalysis_init acct = Inl e"
  shows "e = ValueError"
proof (cases "calculate_returns (fresh acct)")
  case (Inl e')
  with assms have "e' = e" by (simp add: PerformanceAnalysis_init_def)
  with Inl show ?thesis by (simp add: calculate_returns_error)
next
  case (Inr p)
  obtain rets s1 where p: "p = (rets, s1)" by (cases p)
  from Inr p have "strategy_returns s1 = Some rets"
    using calculate_returns_Inr(4)[of "fresh acct" rets s1] by simp
  from calculate_cumulative_returns_Some[OF this] assms Inr p show ?thesis
    by (simp add: PerformanceAnalysis_init_def)
qed

subsection \<open>Trades\<close>

lemma profit_positive_iff:
  "(case profit t of None \<Rightarrow> False | Some p \<Rightarrow> 0 < p) \<longleftrightarrow> (\<exists>p. profit t = Some p \<and> 0 < p)"
  by (cases "profit t") auto

lemma map_filter_length_all:
  "\<forall>t\<in>set xs. f t \<noteq> None \<Longrightarrow> length (List.map_filter f xs) = length xs"
  by (induction xs) (auto simp: List.map_filter_def)

lemma map_filter_positive_count:
  "length (filter (\<lambda>p. 0 < p) (List.map_filter profit xs))
     = length (filter (\<lambda>t. case profit t of None \<Rightarrow> False | Some p \<Rightarrow> 0 < p) xs)"
  by (induction xs) (auto simp: List.map_filter_def split: option.splits)

text \<open>
  When every sell trade carries a \<open>profit\<close> field, the source and the specification's
  wording give the same win rate.
\<close>

lemma get_win_rate_agrees_with_spec:
  assumes "\<forall>t\<in>set (trade_history (account self)). action t = ''sell'' \<longrightarrow> profit t \<noteq> None"
  shows "get_win_rate self = spec_win_rate (trade_history (account self))"
proof -
  let ?th = "trade_history (account self)"
  let ?sells = "filter (\<lambda>t. action t = ''sell'') ?th"
  have all: "\<forall>t\<in>set ?sells. profit t \<noteq> None"
    using assms by auto
  have len: "length (List.map_filter profit ?sells) = length ?sells"
    using all by (rule map_filter_length_all)
  show ?thesis
  proof (cases "?sells = []")
    case True
    then show ?thesis
      by (simp add: get_win_rate_def spec_win_rate_def Let_def List.map_filter_def)
  next
    case False
    then obtain t where t: "t \<in> set ?sells" by (cases ?sells) auto
    with all have "profit t \<noteq> None" by blast
    moreover from t have "t \<in> set ?th" by simp
    ultimately have ex: "list_ex (\<lambda>t. profit t \<noteq> None) ?th"
      unfolding list_ex_iff by blast
    have ne: "?th \<noteq> []" using False by auto
    have m: "List.map_filter profit ?sells \<noteq> []"
      using len False by (metis length_0_conv)
    show ?thesis
      using False ex ne m len
      by (simp add: get_win_rate_def spec_win_rate_def Let_def map_filter_positive_count)
  qed
qed

section \<open>The claims\<close>

subsection \<open>C1: the summary and exceptions\<close>

text \<open>
  C1 states that \<open>get_performance_summary\<close> never raises on a non-empty ledger whose
  dates and assets agree in length. The source raises on every ledger: the summary
  calls \<open>get_calmar_ratio\<close>, which looks up the undefined attribute
  \<open>get_max_drawdown\<close>. This is shown for every analyser and at the ledger with assets
  \<open>[100, 110, 121]\<close>, where the exception is \<open>AttributeError\<close>. Independently of
  what \<open>get_max_drawdown\<close> is bound to, the ledger with assets \<open>[0, 100]\<close> makes
  \<open>get_total_return\<close> divide by zero, and the summary raises \<open>ZeroDivisionError\<close>.
\<close>

theorem get_performance_summary_raises:
  "(\<exists>e. get_performance_summary self = Inl e)
   \<and> (\<exists>s. PerformanceAnalysis_init
              \<lparr>dates = [1, 2, 3], total_assets = [100, 110, 121], trade_history = []\<rparr> = Inr s
          \<and> get_performance_summary s = Inl AttributeError)
   \<and> (\<exists>s. PerformanceAnalysis_init
              \<lparr>dates = [1, 2], total_assets = [0, 100], trade_history = []\<rparr> = Inr s
          \<and> get_performance_summary_with m s = Inl ZeroDivisionError)"
proof -
  let ?A = "\<lparr>dates = [1, 2, 3], total_assets = [100, 110, 121], trade_history = []\<rparr>"
  let ?S = "(fresh ?A)\<lparr>strategy_returns := Some [0, 1 / 10, 1 / 10],
               cumulative_net_assets := Some [1, 11 / 10, 121 / 100],
               cumulative_returns := Some [0, 1 / 10, 21 / 100]\<rparr>"
  let ?B = "\<lparr>dates = [1, 2], total_assets = [0, 100], trade_history = []\<rparr>"
  let ?T = "(fresh ?B)\<lparr>strategy_returns := Some [0, 0],
               cumulative_net_assets := Some [1, 1],
               cumulative_returns := Some [0, 0]\<rparr>"
  have h: "PerformanceAnalysis_init ?A = Inr ?S"
    by (simp add: cumulative_eval returns_eval)
  have tr: "get_total_return ?S = Inr 21"
    by (simp add: get_total_return_def py_div_def fresh_def)
  obtain ar where ar: "get_annualized_return ?S = Inr ar"
    using get_annualized_return_positive[of ?S] by (simp add: fresh_def)
  obtain v where v: "get_sharpe_ratio (2 / 100) ?S = Inr (v, ?S)"
    using get_sharpe_ratio_returns[OF _ ar, of "[0, 1 / 10, 1 / 10]"] by auto
  obtain w where w: "get_volatility ?S = Inr (w, ?S)"
    using get_volatility_returns[of ?S "[0, 1 / 10, 1 / 10]"] by auto
  have c: "get_calmar_ratio_with get_max_drawdown ?S = Inl AttributeError"
    using ar by (simp add: get_calmar_ratio_with_missing)
  have s: "get_performance_summary ?S = Inl AttributeError"
    using tr ar v w c
    by (simp add: get_performance_summary_def get_performance_summary_with_def)
  have k: "PerformanceAnalysis_init ?B = Inr ?T"
    by (simp add: cumulative_eval returns_eval)
  have "get_total_return ?T = Inl ZeroDivisionError"
    by (simp add: get_total_return_def py_div_def fresh_def)
  then have z: "get_performance_summary_with m ?T = Inl ZeroDivisionError"
    by (rule get_performance_summary_with_total_return_raises)
  from get_performance_summary_missing h s k z show ?thesis by blast
qed

subsection \<open>C2: the Calmar ratio\<close>

text \<open>
  C2 states that \<open>get_calmar_ratio\<close> returns the absolute annualised return divided
  by the absolute maximum drawdown. In the source the call never returns a value: the
  method \<open>get_max_drawdown\<close> that it calls does not exist. At the ledger with assets
  \<open>[100, 110, 121]\<close> the annualised return is computed and the exception is
  \<open>AttributeError\<close>. (Lemma \<open>get_calmar_ratio_with_formula\<close> shows that the quotient
  of the claim is what the body computes once the method is supplied.)
\<close>

theorem get_calmar_ratio_never_returns:
  "(\<exists>e. get_calmar_ratio self = Inl e)
   \<and> (\<exists>s. PerformanceAnalysis_init
              \<lparr>dates = [1, 2, 3], total_assets = [100, 110, 121], trade_history = []\<rparr> = Inr s
          \<and> get_calmar_ratio s = Inl AttributeError)"
proof -
  let ?A = "\<lparr>dates = [1, 2, 3], total_assets = [100, 110, 121], trade_history = []\<rparr>"
  let ?S = "(fresh ?A)\<lparr>strategy_returns := Some [0, 1 / 10, 1 / 10],
               cumulative_net_assets := Some [1, 11 / 10, 121 / 100],
               cumulative_returns := Some [0, 1 / 10, 21 / 100]\<rparr>"
  have a: "\<exists>e. get_calmar_ratio self = Inl e"
    by (simp add: get_calmar_ratio_def get_calmar_ratio_with_missing split: sum.splits)
  have h: "PerformanceAnalysis_init ?A = Inr ?S"
    by (simp add: cumulative_eval returns_eval)
  have "\<exists>ar. get_annualized_return ?S = Inr ar"
    using get_annualized_return_positive[of ?S] by (simp add: fresh_def)
  then have "get_calmar_ratio ?S = Inl AttributeError"
    by (auto simp: get_calmar_ratio_def get_calmar_ratio_with_missing)
  with a h show ?thesis by blast
qed

subsection \<open>C3: substitution of non-positive asset values\<close>

text \<open>
  C3, as amended. When the asset list holds a non-positive value, the series that
  enters the percentage change is obtained as follows. An entry that is not zero is
  raised to \<open>1e-6\<close> when it lies below it and is kept otherwise; so a negative entry
  becomes \<open>1e-6\<close> whatever precedes it. A zero entry takes the nearest entry to its
  left that is not zero, raised to \<open>1e-6\<close> in the same way; so it takes that entry
  itself when it is positive. (Zero entries with only zeros to their left are not
  covered by this statement.)
\<close>

theorem sanitized_series_fill:
  assumes "list_ex (\<lambda>asset. asset \<le> 0) assets" and "i < length assets"
  shows "(assets ! i \<noteq> 0 \<longrightarrow>
            sanitized_series assets ! i = Some (max (assets ! i) (1 / 1000000)))
       \<and> (\<forall>j. assets ! i = 0 \<and> j < i \<and> assets ! j \<noteq> 0
                \<and> (\<forall>k. j < k \<and> k < i \<longrightarrow> assets ! k = 0)
              \<longrightarrow> sanitized_series assets ! i = Some (max (assets ! j) (1 / 1000000)))"
proof -
  let ?r = "replace_zero_nan (map Some assets)"
  have len: "length ?r = length assets"
    by (simp add: replace_zero_nan_def)
  have san: "sanitized_series assets ! i
               = map_option (\<lambda>v. max v (1 / 1000000)) (ffill_from None ?r ! i)"
    using assms by (simp add: sanitized_series_def clip_lower_def ffill_def len Let_def)
  have a: "sanitized_series assets ! i = Some (max (assets ! i) (1 / 1000000))"
    if "assets ! i \<noteq> 0"
  proof -
    have "?r ! i = Some (assets ! i)"
      using that assms(2) by (simp add: replace_zero_nan_nth)
    then have "ffill_from None ?r ! i = Some (assets ! i)"
      using assms(2) len by (simp add: ffill_from_nth_Some)
    then show ?thesis by (simp add: san)
  qed
  have b: "sanitized_series assets ! i = Some (max (assets ! j) (1 / 1000000))"
    if "assets ! i = 0" "j < i" "assets ! j \<noteq> 0" "\<forall>k. j < k \<and> k < i \<longrightarrow> assets ! k = 0" for j
  proof -
    have j: "?r ! j = Some (assets ! j)"
      using that assms(2) by (simp add: replace_zero_nan_nth)
    have "\<forall>k. j < k \<and> k \<le> i \<longrightarrow> ?r ! k = None"
    proof (intro allI impI)
      fix k assume k: "j < k \<and> k \<le> i"
      then have "assets ! k = 0"
        using that(1,4) by (cases "k = i") auto
      then show "?r ! k = None"
        using k assms(2) by (simp add: replace_zero_nan_nth)
    qed
    then have "ffill_from None ?r ! i = Some (assets ! j)"
      using ffill_from_nth_carry[of i ?r j "assets ! j" None] assms(2) len that(2) j by simp
    then show ?thesis by (simp add: san)
  qed
  from a b show ?thesis by blast
qed

text \<open>
  At \<open>[100, 110, 0, 121]\<close> the zero takes \<open>110\<close>; at \<open>[100, -5, 0, 121]\<close> the
  negative entry and the zero after it both become \<open>1e-6\<close>.
\<close>

theorem sanitized_series_fill_witness:
  "list_ex (\<lambda>asset. asset \<le> 0) [100, 110, 0, 121 :: real]
   \<and> sanitized_series [100, 110, 0, 121] ! 2 = Some 110
   \<and> sanitized_series [100, - 5, 0, 121] ! 1 = Some (1 / 1000000)
   \<and> sanitized_series [100, - 5, 0, 121] ! 2 = Some (1 / 1000000)"
proof -
  have h1: "list_ex (\<lambda>asset. asset \<le> 0) [100, 110, 0, 121 :: real]" by simp
  have h2: "list_ex (\<lambda>asset. asset \<le> 0) [100, - 5, 0, 121 :: real]" by simp
  have k: "\<forall>k::nat. 1 < k \<and> k < 2 \<longrightarrow> P k" for P by auto
  have a: "sanitized_series [100, 110, 0, 121] ! 2 = Some 110"
    using sanitized_series_fill[OF h1, of 2] k by (auto simp: numeral_2_eq_2)
  have b: "sanitized_series [100, - 5, 0, 121] ! 1 = Some (1 / 1000000)"
    using sanitized_series_fill[OF h2, of 1] by simp
  have c: "sanitized_series [100, - 5, 0, 121] ! 2 = Some (1 / 1000000)"
    using sanitized_series_fill[OF h2, of 2] k by (auto simp: numeral_2_eq_2)
  from h1 a b c show ?thesis by blast
qed

text \<open>
  C3 as stated fails at \<open>[100, -5, 121]\<close>: the specification replaces \<open>-5\<close> by the
  preceding positive value \<open>100\<close>, the source by \<open>1e-6\<close>; the derived returns are
  \<open>[0, -0.11, 0.11]\<close>, where the specification's substitution would give a zero
  return on the second day.
\<close>

theorem sanitized_series_counterexample:
  "list_ex (\<lambda>asset. asset \<le> 0) [100, - 5, 121 :: real]
   \<and> sanitized_series [100, - 5, 121] = [Some 100, Some (1 / 1000000), Some 121]
   \<and> map Some (spec_forward_fill [100, - 5, 121]) = [Some 100, Some 100, Some 121]
   \<and> sanitized_series [100, - 5, 121] \<noteq> map Some (spec_forward_fill [100, - 5, 121])
   \<and> calculate_returns (fresh \<lparr>dates = [1, 2, 3], total_assets = [100, - 5, 121],
                                 trade_history = []\<rparr>)
       = Inr ([0, - (11 / 100), 11 / 100],
              (fresh \<lparr>dates = [1, 2, 3], total_assets = [100, - 5, 121], trade_history = []\<rparr>)
                \<lparr>strategy_returns := Some [0, - (11 / 100), 11 / 100]\<rparr>)"
  by (simp add: returns_eval spec_forward_fill_def)

subsection \<open>C4: when return derivation raises\<close>

text \<open>
  C4 states that \<open>calculate_returns\<close> raises exactly when the asset list is empty.
  The source also raises when the dates and the assets differ in length, since
  \<open>pd.Series\<close> refuses such an index: at two assets and one date
  \<open>calculate_returns\<close>, and with it the constructor, raise \<open>ValueError\<close>, although
  \<open>validate_data\<close> lists this mismatch as an issue to be reported. (Lemma
  \<open>calculate_returns_raises_iff\<close> gives the exact condition.)
\<close>

theorem calculate_returns_length_mismatch:
  "validate_data (fresh \<lparr>dates = [1], total_assets = [100, 110], trade_history = []\<rparr>)
     = [LengthMismatch]
   \<and> calculate_returns (fresh \<lparr>dates = [1], total_assets = [100, 110], trade_history = []\<rparr>)
     = Inl ValueError
   \<and> PerformanceAnalysis_init \<lparr>dates = [1], total_assets = [100, 110], trade_history = []\<rparr>
     = Inl ValueError"
  by (simp add: validate_data_def calculate_returns_def pd_Series_def fresh_def
      PerformanceAnalysis_init_def)

subsection \<open>C5: the first return is zero and every return is clamped\<close>

text \<open>
  C5. Whenever \<open>calculate_returns\<close> yields a return series, the series has one
  entry per asset value and at least one entry, its first entry is \<open>0\<close>, and every
  entry lies in the closed interval from \<open>-0.11\<close> to \<open>0.11\<close>.
\<close>

theorem calculate_returns_clamped:
  assumes "calculate_returns self = Inr (rets, self')"
  shows "length rets = length (total_assets (account self)) \<and> 0 < length rets
       \<and> rets ! 0 = 0
       \<and> (\<forall>i. i < length rets \<longrightarrow> - (11 / 100) \<le> rets ! i \<and> rets ! i \<le> 11 / 100)"
proof -
  let ?p = "pct_change (sanitized_series (total_assets (account self)))"
  note r = calculate_returns_Inr[OF assms]
  have len: "length rets = length (total_assets (account self))"
    by (simp add: r(3) clip_def fillna_zero_def)
  have pos: "0 < length rets"
    using r(1) len by simp
  have "?p ! 0 = None"
    using r(1) by (intro pct_change_first) (metis length_0_conv sanitized_series_length)
  then have first: "rets ! 0 = 0"
    using pos len by (simp add: r(3) clip_def fillna_zero_def)
  have "- (11 / 100) \<le> rets ! i \<and> rets ! i \<le> 11 / 100" if "i < length rets" for i
  proof -
    have "i < length (fillna_zero ?p)"
      using that len by (simp add: fillna_zero_def)
    then show ?thesis
      using clip_nth_bounds[of "- (11 / 100)" "11 / 100" i "fillna_zero ?p"] by (simp add: r(3))
  qed
  with len pos first show ?thesis by blast
qed

text \<open>
  The assets \<open>[100, 110, 200]\<close> have the raw changes \<open>0.10\<close> and about \<open>0.82\<close>;
  the second is clamped to \<open>0.11\<close>.
\<close>

theorem calculate_returns_clamped_witness:
  "calculate_returns (fresh \<lparr>dates = [1, 2, 3], total_assets = [100, 110, 200], trade_history = []\<rparr>)
     = Inr ([0, 1 / 10, 11 / 100],
            (fresh \<lparr>dates = [1, 2, 3], total_assets = [100, 110, 200], trade_history = []\<rparr>)
              \<lparr>strategy_returns := Some [0, 1 / 10, 11 / 100]\<rparr>)
   \<and> [0, 1 / 10, 11 / 100 :: real] ! 0 = 0
   \<and> - (11 / 100) \<le> [0, 1 / 10, 11 / 100 :: real] ! 2
   \<and> [0, 1 / 10, 11 / 100 :: real] ! 2 \<le> 11 / 100"
proof -
  have h: "calculate_returns (fresh \<lparr>dates = [1, 2, 3], total_assets = [100, 110, 200], trade_history = []\<rparr>)
     = Inr ([0, 1 / 10, 11 / 100],
            (fresh \<lparr>dates = [1, 2, 3], total_assets = [100, 110, 200], trade_history = []\<rparr>)
              \<lparr>strategy_returns := Some [0, 1 / 10, 11 / 100]\<rparr>)"
    by (simp add: returns_eval)
  have "(2::nat) < length [0, 1 / 10, 11 / 100 :: real]" by simp
  with calculate_returns_clamped[OF h] h show ?thesis by blast
qed

subsection \<open>C6: the cumulative series and the returns\<close>

text \<open>
  C6. For every ledger on which the constructor succeeds, the three derived series
  are set and non-empty, each has as many entries as there are dates, the cumulative
  net value at \<open>i\<close> is the product of \<open>1 + returns[k]\<close> over \<open>k\<close> from \<open>0\<close> to
  \<open>i\<close>, and the cumulative return at \<open>i\<close> is that value minus \<open>1\<close>. (By lemma
  \<open>PerformanceAnalysis_init_total\<close> the constructor succeeds on every non-empty ledger
  whose dates and assets agree in length.)
\<close>

theorem cumulative_round_trip:
  assumes "PerformanceAnalysis_init acct = Inr self"
  shows "\<exists>rets net cum.
           strategy_returns self = Some rets \<and> cumulative_net_assets self = Some net
         \<and> cumulative_returns self = Some cum
         \<and> 0 < length rets \<and> length rets = length (dates acct)
         \<and> length cum = length (dates acct) \<and> length net = length (dates acct)
         \<and> (\<forall>i<length rets. net ! i = (\<Prod>k\<le>i. 1 + rets ! k) \<and> cum ! i = net ! i - 1)"
proof -
  from assms obtain rets where
    c: "calculate_returns (fresh acct) = Inr (rets, (fresh acct)\<lparr>strategy_returns := Some rets\<rparr>)"
    and s: "self = (fresh acct)\<lparr>strategy_returns := Some rets,
               cumulative_net_assets := Some (cumprod (map (\<lambda>r. 1 + r) rets)),
               cumulative_returns := Some (map (\<lambda>v. v - 1) (cumprod (map (\<lambda>r. 1 + r) rets)))\<rparr>"
    by (rule PerformanceAnalysis_init_Inr)
  let ?net = "cumprod (map (\<lambda>r. 1 + r) rets)"
  let ?cum = "map (\<lambda>v. v - 1) ?net"
  note r = calculate_returns_Inr[OF c]
  have "length rets = length (total_assets acct)"
    using r(3) by (simp add: clip_def fillna_zero_def fresh_def)
  then have len: "length rets = length (dates acct)" and pos: "0 < length rets"
    using r(1,2) by (simp_all add: fresh_def)
  have "?net ! i = (\<Prod>k\<le>i. 1 + rets ! k) \<and> ?cum ! i = ?net ! i - 1" if "i < length rets" for i
    using that by (simp add: cumprod_nth)
  moreover have "strategy_returns self = Some rets" "cumulative_net_assets self = Some ?net"
    "cumulative_returns self = Some ?cum"
    by (simp_all add: s)
  moreover have "length ?cum = length (dates acct)" "length ?net = length (dates acct)"
    using len by simp_all
  ultimately show ?thesis
    using len pos by blast
qed

text \<open>The ledger with assets \<open>[100, 110, 121]\<close>: net values \<open>1\<close>, \<open>1.1\<close>, \<open>1.21\<close>.\<close>

theorem cumulative_round_trip_witness:
  "PerformanceAnalysis_init \<lparr>dates = [1, 2, 3], total_assets = [100, 110, 121], trade_history = []\<rparr>
     = Inr ((fresh \<lparr>dates = [1, 2, 3], total_assets = [100, 110, 121], trade_history = []\<rparr>)
              \<lparr>strategy_returns := Some [0, 1 / 10, 1 / 10],
               cumulative_net_assets := Some [1, 11 / 10, 121 / 100],
               cumulative_returns := Some [0, 1 / 10, 21 / 100]\<rparr>)
   \<and> [1, 11 / 10, 121 / 100 :: real] ! 2 = (\<Prod>k\<le>2. 1 + [0, 1 / 10, 1 / 10 :: real] ! k)
   \<and> [0, 1 / 10, 21 / 100 :: real] ! 2 = [1, 11 / 10, 121 / 100 :: real] ! 2 - 1
   \<and> length [0, 1 / 10, 21 / 100 :: real] = length [1, 2, 3 :: int]"
proof -
  let ?A = "\<lparr>dates = [1, 2, 3], total_assets = [100, 110, 121], trade_history = []\<rparr>"
  let ?S = "(fresh ?A)\<lparr>strategy_returns := Some [0, 1 / 10, 1 / 10],
               cumulative_net_assets := Some [1, 11 / 10, 121 / 100],
               cumulative_returns := Some [0, 1 / 10, 21 / 100]\<rparr>"
  have h: "PerformanceAnalysis_init ?A = Inr ?S"
    by (simp add: cumulative_eval returns_eval)
  from cumulative_round_trip[OF h] obtain rets net cum where
    f: "strategy_returns ?S = Some rets" "cumulative_net_assets ?S = Some net"
       "cumulative_returns ?S = Some cum" "length cum = length (dates ?A)"
    and q: "\<forall>i<length rets. net ! i = (\<Prod>k\<le>i. 1 + rets ! k) \<and> cum ! i = net ! i - 1"
    by blast
  from f have e: "rets = [0, 1 / 10, 1 / 10]" "net = [1, 11 / 10, 121 / 100]"
    "cum = [0, 1 / 10, 21 / 100]"
    by simp_all
  from q e have "[1, 11 / 10, 121 / 100 :: real] ! 2 = (\<Prod>k\<le>2. 1 + [0, 1 / 10, 1 / 10 :: real] ! k)
    \<and> [0, 1 / 10, 21 / 100 :: real] ! 2 = [1, 11 / 10, 121 / 100 :: real] ! 2 - 1"
    by (metis length_Cons lessI list.size(3) numeral_2_eq_2)
  moreover from f(4) e have "length [0, 1 / 10, 21 / 100 :: real] = length [1, 2, 3 :: int]"
    by simp
  ultimately show ?thesis using h by blast
qed

subsection \<open>C8: the win rate\<close>

text \<open>
  C8, as amended. \<open>get_win_rate\<close> returns \<open>0\<close> when the history has no sell trade
  or no record at all carries a \<open>profit\<close> field. Otherwise it returns, in percent,
  the number of sell trades that carry a positive \<open>profit\<close> divided by the number of
  all sell trades, those without a \<open>profit\<close> field included.
\<close>

theorem get_win_rate_counts:
  "get_win_rate self =
     (let trades = trade_history (account self);
          sells = length (filter (\<lambda>t. action t = ''sell'') trades);
          wins = length (filter (\<lambda>t. action t = ''sell'' \<and> (\<exists>p. profit t = Some p \<and> 0 < p))
                           trades)
      in if sells = 0 \<or> list_all (\<lambda>t. profit t = None) trades then 0
         else real wins / real sells * 100)"
proof -
  let ?th = "trade_history (account self)"
  have e: "list_ex (\<lambda>t. profit t \<noteq> None) ?th \<longleftrightarrow> \<not> list_all (\<lambda>t. profit t = None) ?th"
    by (simp add: list_ex_iff list_all_iff)
  have f: "filter (\<lambda>t. case profit t of None \<Rightarrow> False | Some p \<Rightarrow> 0 < p)
             (filter (\<lambda>t. action t = ''sell'') ?th)
           = filter (\<lambda>t. action t = ''sell'' \<and> (\<exists>p. profit t = Some p \<and> 0 < p)) ?th"
    by (simp add: profit_positive_iff)
  show ?thesis
    unfolding get_win_rate_def Let_def e f
    by (cases "?th = []") auto
qed

text \<open>
  The history of the specification's example, a sell with profit \<open>10\<close> and a sell
  with profit \<open>-5\<close>, gives \<open>50\<close>; an empty history and a history without any
  \<open>profit\<close> field give \<open>0\<close>.
\<close>

theorem get_win_rate_counts_witness:
  "get_win_rate (fresh \<lparr>dates = [1], total_assets = [100],
       trade_history = [\<lparr>action = ''sell'', profit = Some 10, return_rate = None\<rparr>,
                        \<lparr>action = ''sell'', profit = Some (- 5), return_rate = None\<rparr>]\<rparr>) = 50
   \<and> get_win_rate (fresh \<lparr>dates = [1], total_assets = [100], trade_history = []\<rparr>) = 0
   \<and> get_win_rate (fresh \<lparr>dates = [1], total_assets = [100],
       trade_history = [\<lparr>action = ''buy'', profit = None, return_rate = None\<rparr>,
                        \<lparr>action = ''sell'', profit = None, return_rate = None\<rparr>]\<rparr>) = 0"
  using get_win_rate_counts[of "fresh \<lparr>dates = [1], total_assets = [100],
       trade_history = [\<lparr>action = ''sell'', profit = Some 10, return_rate = None\<rparr>,
                        \<lparr>action = ''sell'', profit = Some (- 5), return_rate = None\<rparr>]\<rparr>"]
    get_win_rate_counts[of "fresh \<lparr>dates = [1], total_assets = [100], trade_history = []\<rparr>"]
    get_win_rate_counts[of "fresh \<lparr>dates = [1], total_assets = [100],
       trade_history = [\<lparr>action = ''buy'', profit = None, return_rate = None\<rparr>,
                        \<lparr>action = ''sell'', profit = None, return_rate = None\<rparr>]\<rparr>"]
  by (simp add: fresh_def)

text \<open>
  C8 as stated fails when a sell trade lacks the \<open>profit\<close> field: of the two sell
  trades below only the first has one, and it is positive. Among the sell trades with
  a \<open>profit\<close> field the share of winners is \<open>100\<close> percent; the source divides by
  both sell trades and returns \<open>50\<close>.
\<close>

theorem get_win_rate_counterexample:
  "get_win_rate (fresh \<lparr>dates = [1], total_assets = [100],
       trade_history = [\<lparr>action = ''sell'', profit = Some 10, return_rate = None\<rparr>,
                        \<lparr>action = ''sell'', profit = None, return_rate = None\<rparr>]\<rparr>) = 50
   \<and> spec_win_rate [\<lparr>action = ''sell'', profit = Some 10, return_rate = None\<rparr>,
                     \<lparr>action = ''sell'', profit = None, return_rate = None\<rparr>] = 100"
  by (simp add: get_win_rate_def spec_win_rate_def fresh_def List.map_filter_def)

subsection \<open>C9: the total return\<close>

text \<open>
  C9, as amended. \<open>get_total_return\<close> returns \<open>0\<close> when there are fewer than two
  asset values. When there are at least two and the first is not zero, it returns
  \<open>(final / initial - 1) * 100\<close>; for the assets \<open>[100, 110, 121]\<close> that is \<open>21\<close>.
\<close>

theorem get_total_return_formula:
  "(length (total_assets (account self)) < 2 \<longrightarrow> get_total_return self = Inr 0)
   \<and> (2 \<le> length (total_assets (account self)) \<and> total_assets (account self) ! 0 \<noteq> 0
        \<longrightarrow> get_total_return self
            = Inr ((last (total_assets (account self)) / total_assets (account self) ! 0 - 1) * 100))"
proof (intro conjI impI)
  assume "length (total_assets (account self)) < 2"
  then show "get_total_return self = Inr 0"
    by (simp add: get_total_return_def)
next
  assume a: "2 \<le> length (total_assets (account self)) \<and> total_assets (account self) ! 0 \<noteq> 0"
  then have "py_div (last (total_assets (account self))) (total_assets (account self) ! 0)
               = Inr (last (total_assets (account self)) / total_assets (account self) ! 0)"
    by (simp add: py_div_def)
  with a show "get_total_return self
            = Inr ((last (total_assets (account self)) / total_assets (account self) ! 0 - 1) * 100)"
    by (simp add: get_total_return_def Let_def)
qed

theorem get_total_return_formula_witness:
  "get_total_return (fresh \<lparr>dates = [1, 2, 3], total_assets = [100, 110, 121], trade_history = []\<rparr>)
     = Inr 21
   \<and> get_total_return (fresh \<lparr>dates = [1], total_assets = [100], trade_history = []\<rparr>) = Inr 0"
  using get_total_return_formula[of "fresh \<lparr>dates = [1, 2, 3], total_assets = [100, 110, 121], trade_history = []\<rparr>"]
    get_total_return_formula[of "fresh \<lparr>dates = [1], total_assets = [100], trade_history = []\<rparr>"]
  by (simp add: fresh_def)

text \<open>
  C9 as stated fails at the assets \<open>[0, 5]\<close>: there are two observations, and the
  call raises instead of returning a value.
\<close>

theorem get_total_return_formula_counterexample:
  "2 \<le> length (total_assets (account (fresh \<lparr>dates = [1, 2], total_assets = [0, 5], trade_history = []\<rparr>)))
   \<and> get_total_return (fresh \<lparr>dates = [1, 2], total_assets = [0, 5], trade_history = []\<rparr>)
       = Inl ZeroDivisionError
   \<and> get_total_return (fresh \<lparr>dates = [1, 2], total_assets = [0, 5], trade_history = []\<rparr>)
       \<noteq> Inr ((last [0, 5] / [0, 5] ! 0 - 1) * 100)"
  by (simp add: get_total_return_def py_div_def Let_def fresh_def)

subsection \<open>C10: a zero first asset value\<close>

text \<open>
  C10. \<open>get_total_return\<close> reads the raw asset list, without the substitution of
  return derivation: when there are at least two asset values and the first is zero,
  the call raises a division-by-zero error.
\<close>

theorem get_total_return_zero_initial:
  assumes "2 \<le> length (total_assets (account self))"
    and "total_assets (account self) ! 0 = 0"
  shows "get_total_return self = Inl ZeroDivisionError"
proof -
  have "py_div (last (total_assets (account self))) (total_assets (account self) ! 0)
          = Inl ZeroDivisionError"
    using assms(2) by (simp add: py_div_def)
  with assms(1) show ?thesis
    by (simp add: get_total_return_def Let_def)
qed

text \<open>
  At the assets \<open>[0, 100]\<close> return derivation succeeds, with the zero left as NaN
  and a zero return on both days, while \<open>get_total_return\<close> raises.
\<close>

theorem get_total_return_zero_initial_witness:
  "calculate_returns (fresh \<lparr>dates = [1, 2], total_assets = [0, 100], trade_history = []\<rparr>)
     = Inr ([0, 0], (fresh \<lparr>dates = [1, 2], total_assets = [0, 100], trade_history = []\<rparr>)
                       \<lparr>strategy_returns := Some [0, 0]\<rparr>)
   \<and> get_total_return (fresh \<lparr>dates = [1, 2], total_assets = [0, 100], trade_history = []\<rparr>)
       = Inl ZeroDivisionError"
proof -
  let ?S = "fresh \<lparr>dates = [1, 2], total_assets = [0, 100], trade_history = []\<rparr>"
  have "2 \<le> length (total_assets (account ?S))" and "total_assets (account ?S) ! 0 = 0"
    by (simp_all add: fresh_def)
  then have "get_total_return ?S = Inl ZeroDivisionError"
    by (rule get_total_return_zero_initial)
  moreover have "calculate_returns ?S = Inr ([0, 0], ?S\<lparr>strategy_returns := Some [0, 0]\<rparr>)"
    by (simp add: returns_eval)
  ultimately show ?thesis by blast
qed

end
